theory Spec2Isabelle
  imports Main
begin

section \<open>Values exchanged over HTTP\<close>

text \<open>
  The routes of \<^verbatim>\<open>src/server/src/routes/api.ts\<close> reply with JSON. An object literal of the
  source is a \<open>JObject\<close> holding its keys in the order they are written.
\<close>

datatype json =
    JNull
  | JBool bool
  | JNumber int
  | JString string
  | JArray "json list"
  | JObject "(string \<times> json) list"

text \<open>
  What a handler or a collaborator throws. \<open>HttpError\<close> is an error of the
  \<^verbatim>\<open>http-errors\<close> package (status code and message), \<open>ValidationError\<close> is the
  framework's rejection of a request that fails the route's schema, \<open>Failure\<close> is any
  other thrown value, which the framework answers with status 500.
\<close>

datatype exn =
    HttpError nat string
  | ValidationError
  | Failure string

definition NotFound :: "string \<Rightarrow> exn" where
  "NotFound msg = HttpError 404 msg"

definition BadRequest :: "string \<Rightarrow> exn" where
  "BadRequest msg = HttpError 400 msg"

fun statusCode :: "exn \<Rightarrow> nat" where
  "statusCode (HttpError n msg) = n"
| "statusCode ValidationError = 400"
| "statusCode (Failure msg) = 500"

text \<open>
  A reply is either a status with an optional JSON payload (\<open>None\<close>: no body), or the
  error reply the framework builds from a thrown or returned error object.
\<close>

datatype response =
    Reply nat "json option"
  | Failed exn

fun status :: "response \<Rightarrow> nat" where
  "status (Reply n b) = n"
| "status (Failed e) = statusCode e"

section \<open>Records of \<^verbatim>\<open>../types\<close>\<close>

text \<open>
  Modelled from the spec: the declarations of \<^verbatim>\<open>PoapEvent\<close> and \<^verbatim>\<open>Claim\<close> live in
  \<^verbatim>\<open>../types\<close>. The fields are the ones the routes read (\<^verbatim>\<open>ev.description\<close>,
  \<^verbatim>\<open>ev.image_url\<close>, \<^verbatim>\<open>ev.year\<close>, ...) and the ones section 3 of the spec lists for
  Event and Claim. The four fields a PUT may change are declared first, as the record
  \<open>EventUpdate\<close>, which is also the type of the object the PUT handler passes to
  \<^verbatim>\<open>updateEvent\<close>; \<open>PoapEvent\<close> extends it, so that the selectors are shared.
\<close>

record EventUpdate =
  signer :: "string option"
  signer_ip :: "string option"
  event_url :: string
  image_url :: string

record PoapEvent = EventUpdate +
  event_id :: int
  fancy_id :: string
  name :: string
  description :: string
  city :: string
  country :: string
  start_date :: string
  end_date :: string
  year :: int

record MintTokenBatchBody =
  eventId :: int
  addresses :: "string list"

record Claim =
  claimId :: string
  eventId :: int
  proof' :: string
  claimer :: string
  claimerSignature :: string

section \<open>buildMetadataJson\<close>

definition attribute :: "string \<Rightarrow> string \<Rightarrow> json" where
  "attribute t v = JObject [(''trait_type'', JString t), (''value'', JString v)]"

definition buildMetadataJson :: "string \<Rightarrow> PoapEvent \<Rightarrow> json" where
  "buildMetadataJson tokenUrl ev = JObject
     [(''description'', JString (description ev)),
      (''external_url'', JString tokenUrl),
      (''home_url'', JString tokenUrl),
      (''image'', JString (image_url ev)),
      (''image_url'', JString (image_url ev)),
      (''name'', JString (name ev)),
      (''year'', JNumber (year ev)),
      (''tags'', JArray [JString ''poap'', JString ''event'']),
      (''attributes'', JArray
         [attribute ''startDate'' (start_date ev),
          attribute ''endDate'' (end_date ev),
          attribute ''city'' (city ev),
          attribute ''country'' (country ev),
          attribute ''eventURL'' (event_url ev)]),
      (''properties'', JArray [])]"

text \<open>Reading a document: the value under a key, the keys, the labels of the attributes.\<close>

fun field :: "string \<Rightarrow> json \<Rightarrow> json option" where
  "field k (JObject kvs) = map_of kvs k"
| "field k j = None"

fun keys :: "json \<Rightarrow> string list" where
  "keys (JObject kvs) = map fst kvs"
| "keys j = []"

fun elements :: "json option \<Rightarrow> json list" where
  "elements (Some (JArray js)) = js"
| "elements j = []"

definition trait_types :: "json \<Rightarrow> json option list" where
  "trait_types doc = map (field ''trait_type'') (elements (field ''attributes'' doc))"

section \<open>The shared schemas\<close>

text \<open>
  \<^verbatim>\<open>fastify.addSchema\<close> registers two string schemas, each with \<^verbatim>\<open>minLength\<close>,
  \<^verbatim>\<open>maxLength\<close> and an anchored \<^verbatim>\<open>pattern\<close>. The patterns of the source are sequences
  of an atom (a literal character or a character class given by its ranges) repeated a
  fixed number of times, between \<^verbatim>\<open>^\<close> and \<^verbatim>\<open>$\<close>; the model keeps that shape.
  A \<open>string\<close> is a list of 8-bit characters: the characters the patterns accept are all
  ASCII, where code units, code points and bytes agree.
\<close>

datatype atom =
    Lit char
  | Class "(char \<times> char) list"

fun atom_matches :: "atom \<Rightarrow> char \<Rightarrow> bool" where
  "atom_matches (Lit a) c = (c = a)"
| "atom_matches (Class rs) c =
     list_ex (\<lambda>(lo, hi). of_char lo \<le> (of_char c :: nat) \<and> of_char c \<le> (of_char hi :: nat)) rs"

text \<open>\<open>repeat_match a n s\<close> consumes exactly \<open>n\<close> characters matching \<open>a\<close> and returns the rest.\<close>

fun repeat_match :: "atom \<Rightarrow> nat \<Rightarrow> string \<Rightarrow> string option" where
  "repeat_match a 0 s = Some s"
| "repeat_match a (Suc n) [] = None"
| "repeat_match a (Suc n) (c # cs) = (if atom_matches a c then repeat_match a n cs else None)"

text \<open>The whole string must be consumed: the pattern is anchored at both ends.\<close>

fun regex_test :: "(atom \<times> nat) list \<Rightarrow> string \<Rightarrow> bool" where
  "regex_test [] s = (s = [])"
| "regex_test ((a, n) # ps) s =
     (case repeat_match a n s of None \<Rightarrow> False | Some rest \<Rightarrow> regex_test ps rest)"

record string_schema =
  minLength :: nat
  maxLength :: nat
  pattern :: "(atom \<times> nat) list"

definition validate_string :: "string_schema \<Rightarrow> string \<Rightarrow> bool" where
  "validate_string sch s =
     (minLength sch \<le> length s \<and> length s \<le> maxLength sch \<and> regex_test (pattern sch) s)"

definition hex_class :: atom where
  "hex_class = Class [(CHR ''0'', CHR ''9''), (CHR ''a'', CHR ''f''), (CHR ''A'', CHR ''F'')]"

definition address_schema :: string_schema where
  "address_schema =
     \<lparr>minLength = 42, maxLength = 42,
      pattern = [(Lit CHR ''0'', 1), (Lit CHR ''x'', 1), (hex_class, 40)]\<rparr>"

definition signature_schema :: string_schema where
  "signature_schema =
     \<lparr>minLength = 132, maxLength = 132,
      pattern = [(Lit CHR ''0'', 1), (Lit CHR ''x'', 1), (hex_class, 130)]\<rparr>"

text \<open>
  The spec's wording of the two patterns, for comparison with the schemas of the source:
  the right length, the prefix \<^verbatim>\<open>0x\<close>, and hexadecimal digits only after it.
\<close>

definition is_hex_digit :: "char \<Rightarrow> bool" where
  "is_hex_digit c = (c \<in> set ''0123456789abcdefABCDEF'')"

definition spec_hex_string :: "nat \<Rightarrow> string \<Rightarrow> bool" where
  "spec_hex_string n s =
     (length s = 2 + n \<and> take 2 s = ''0x'' \<and> list_all is_hex_digit (drop 2 s))"

definition spec_Address :: "string \<Rightarrow> bool" where
  "spec_Address s = spec_hex_string 40 s"

definition spec_Signature :: "string \<Rightarrow> bool" where
  "spec_Signature s = spec_hex_string 130 s"

text \<open>
  The route schemas. A request body is modelled after JSON typing: the \<^verbatim>\<open>type\<close> and
  \<^verbatim>\<open>required\<close> keywords are the types of the record's fields, and a field that may be a
  string or \<^verbatim>\<open>null\<close> is an option. The predicates below are the remaining keywords:
  \<^verbatim>\<open>minimum\<close>, \<^verbatim>\<open>minItems\<close>, \<^verbatim>\<open>items\<close> and the references to the shared schemas.
\<close>

definition scan_params_schema :: "string \<Rightarrow> bool" where
  "scan_params_schema address = validate_string address_schema address"

text \<open>
  The validator coerces types (the framework's default): where a schema asks for
  \<^verbatim>\<open>type: 'string'\<close> a \<^verbatim>\<open>null\<close> becomes the empty string, and where it asks for
  \<^verbatim>\<open>type: 'null'\<close> an empty string becomes \<^verbatim>\<open>null\<close>. A keyword therefore returns, with
  its verdict, the value as it has rewritten it, and the rewritten value stays in the
  request also when the verdict is negative. \<^verbatim>\<open>anyOf\<close> tries its branches in order on
  the value as the branches before have left it and stops at the first that accepts.
  Only the two nullable fields of the PUT body can hold a \<^verbatim>\<open>null\<close>, so only there does
  the coercion show.
\<close>

definition type_string :: "string option \<Rightarrow> bool \<times> string option" where
  "type_string d = (case d of None \<Rightarrow> (True, Some []) | Some s \<Rightarrow> (True, Some s))"

definition type_null :: "string option \<Rightarrow> bool \<times> string option" where
  "type_null d =
     (case d of
        None \<Rightarrow> (True, None)
      | Some s \<Rightarrow> if s = [] then (True, None) else (False, Some s))"

definition ref_string :: "string_schema \<Rightarrow> string option \<Rightarrow> bool \<times> string option" where
  "ref_string sch d =
     (case type_string d of
        (ok, None) \<Rightarrow> (False, None)
      | (ok, Some s) \<Rightarrow> (ok \<and> validate_string sch s, Some s))"

fun anyOf :: "('d \<Rightarrow> bool \<times> 'd) list \<Rightarrow> 'd \<Rightarrow> bool \<times> 'd" where
  "anyOf [] d = (False, d)"
| "anyOf (branch # branches) d =
     (case branch d of (ok, d1) \<Rightarrow> if ok then (True, d1) else anyOf branches d1)"

text \<open>
  The body schema of \<^verbatim>\<open>PUT /api/events/:fancyid\<close>: the verdict on the body, and the body
  as the handler will read it.
\<close>

definition put_event_body_schema :: "'a EventUpdate_scheme \<Rightarrow> 'a EventUpdate_scheme option" where
  "put_event_body_schema body =
     (case anyOf [ref_string address_schema, type_null] (signer body) of
        (signer_ok, signer') \<Rightarrow>
          (case anyOf [type_string, type_null] (signer_ip body) of
             (signer_ip_ok, signer_ip') \<Rightarrow>
               if signer_ok \<and> signer_ip_ok
               then Some (body\<lparr>signer := signer', signer_ip := signer_ip'\<rparr>)
               else None))"

definition mintTokenBatch_body_schema :: "MintTokenBatchBody \<Rightarrow> bool" where
  "mintTokenBatch_body_schema body =
     (1 \<le> MintTokenBatchBody.eventId body
      \<and> 1 \<le> length (addresses body)
      \<and> list_all (validate_string address_schema) (addresses body))"

definition claim_body_schema :: "Claim \<Rightarrow> bool" where
  "claim_body_schema body =
     (1 \<le> eventId body
      \<and> validate_string signature_schema (proof' body)
      \<and> validate_string address_schema (claimer body)
      \<and> validate_string signature_schema (claimerSignature body))"

section \<open>The collaborators and the calls made to them\<close>

text \<open>
  The routes import \<^verbatim>\<open>getEvent\<close>, \<^verbatim>\<open>updateEvent\<close> (module \<^verbatim>\<open>../db\<close>),
  \<^verbatim>\<open>getAllTokens\<close>, \<^verbatim>\<open>getTokenInfo\<close>, \<^verbatim>\<open>mintToken\<close>, \<^verbatim>\<open>mintTokens\<close>,
  \<^verbatim>\<open>verifyClaim\<close> (module \<^verbatim>\<open>../poap-helper\<close>) and use the decorator
  \<^verbatim>\<open>fastify.authenticate\<close>; none of them is defined in the routes file. They are
  parameters of the model: each takes the state of the world \<open>'w\<close> (database, ledger) and
  returns the new one with either the value it resolves to (\<open>Inr\<close>) or what it throws
  (\<open>Inl\<close>). \<^verbatim>\<open>parseInt\<close> is the JavaScript built-in; its result type \<open>'n\<close> is left open.
  \<^verbatim>\<open>authenticate\<close> reads the request's credential (the Authorization header, if any).
\<close>

record ('w, 'n) env =
  parseInt :: "string \<Rightarrow> 'n"
  authenticate :: "string option \<Rightarrow> 'w \<Rightarrow> (exn + unit) \<times> 'w"
  getEvent :: "'n \<Rightarrow> 'w \<Rightarrow> (exn + PoapEvent option) \<times> 'w"
  getAllTokens :: "string \<Rightarrow> 'w \<Rightarrow> (exn + json) \<times> 'w"
  getTokenInfo :: "int \<Rightarrow> 'w \<Rightarrow> (exn + json) \<times> 'w"
  updateEvent :: "string \<Rightarrow> EventUpdate \<Rightarrow> 'w \<Rightarrow> (exn + bool) \<times> 'w"
  mintTokens :: "int \<Rightarrow> string list \<Rightarrow> 'w \<Rightarrow> (exn + json) \<times> 'w"
  verifyClaim :: "Claim \<Rightarrow> 'w \<Rightarrow> (exn + bool) \<times> 'w"
  mintToken :: "int \<Rightarrow> string \<Rightarrow> 'w \<Rightarrow> (exn + json) \<times> 'w"

text \<open>Every call to a collaborator is recorded, with its arguments, in the order made.\<close>

datatype 'n call =
    Authenticate "string option"
  | GetEvent 'n
  | GetAllTokens string
  | GetTokenInfo int
  | UpdateEvent string EventUpdate
  | MintTokens int "string list"
  | VerifyClaim Claim
  | MintToken int string

type_synonym ('w, 'n) st = "'w \<times> 'n call list"

definition invoke ::
  "'n call \<Rightarrow> ('w \<Rightarrow> (exn + 'a) \<times> 'w) \<Rightarrow> ('w, 'n) st \<Rightarrow> (exn + 'a) \<times> ('w, 'n) st" where
  "invoke c f s = (case f (fst s) of (r, w') \<Rightarrow> (r, (w', snd s @ [c])))"

section \<open>The request lifecycle\<close>

text \<open>
  The framework runs a route's \<^verbatim>\<open>preValidation\<close> hooks, then validates the request
  against the route's schema, then runs the handler on the request as validation has left
  it. A hook that fails ends the request with its error; a request that fails the schema
  (\<open>None\<close>) ends with the validation error.
\<close>

fun run_hooks ::
  "(('w, 'n) st \<Rightarrow> (exn + unit) \<times> ('w, 'n) st) list \<Rightarrow> ('w, 'n) st \<Rightarrow> (exn + unit) \<times> ('w, 'n) st" where
  "run_hooks [] s = (Inr (), s)"
| "run_hooks (h # hs) s =
     (case h s of (Inl e, s1) \<Rightarrow> (Inl e, s1) | (Inr u, s1) \<Rightarrow> run_hooks hs s1)"

definition route ::
  "(('w, 'n) st \<Rightarrow> (exn + unit) \<times> ('w, 'n) st) list \<Rightarrow> 'r option
     \<Rightarrow> ('r \<Rightarrow> ('w, 'n) st \<Rightarrow> response \<times> ('w, 'n) st) \<Rightarrow> ('w, 'n) st
     \<Rightarrow> response \<times> ('w, 'n) st" where
  "route preValidation validated handler s =
     (case run_hooks preValidation s of
        (Inl e, s1) \<Rightarrow> (Failed e, s1)
      | (Inr u, s1) \<Rightarrow>
          (case validated of
             None \<Rightarrow> (Failed ValidationError, s1)
           | Some request \<Rightarrow> handler request s1))"

text \<open>A schema that rewrites nothing: the request passes as it is, or fails.\<close>

definition accept :: "bool \<Rightarrow> 'r \<Rightarrow> 'r option" where
  "accept schema_ok request = (if schema_ok then Some request else None)"

section \<open>The routes\<close>

text \<open>
  \<^verbatim>\<open>GET /metadata/:eventId/:tokenId\<close>: no schema, so the two path parameters
  (\<^verbatim>\<open>req.params.eventId\<close> and \<^verbatim>\<open>req.params.tokenId\<close>) are strings.
\<close>

definition metadata_handler ::
  "('w, 'n) env \<Rightarrow> string \<Rightarrow> string \<Rightarrow> ('w, 'n) st \<Rightarrow> response \<times> ('w, 'n) st" where
  "metadata_handler env eventId_param tokenId_param s =
     (case invoke (GetEvent (parseInt env eventId_param)) (getEvent env (parseInt env eventId_param)) s of
        (Inl e, s1) \<Rightarrow> (Failed e, s1)
      | (Inr None, s1) \<Rightarrow> (Failed (NotFound ''Invalid Event''), s1)
      | (Inr (Some event), s1) \<Rightarrow>
          (let tokenUrl = ''http://localhost:3000/metadata/'' @ eventId_param @ ''/'' @ tokenId_param
           in (Reply 200 (Some (buildMetadataJson tokenUrl event)), s1)))"

definition metadata_route ::
  "('w, 'n) env \<Rightarrow> string \<Rightarrow> string \<Rightarrow> ('w, 'n) st \<Rightarrow> response \<times> ('w, 'n) st" where
  "metadata_route env eventId_param tokenId_param =
     route [] (Some (eventId_param, tokenId_param))
       (\<lambda>params. metadata_handler env (fst params) (snd params))"

text \<open>\<^verbatim>\<open>GET /api/scan/:address\<close>\<close>

definition scan_handler ::
  "('w, 'n) env \<Rightarrow> string \<Rightarrow> ('w, 'n) st \<Rightarrow> response \<times> ('w, 'n) st" where
  "scan_handler env address s =
     (case invoke (GetAllTokens address) (getAllTokens env address) s of
        (Inl e, s1) \<Rightarrow> (Failed e, s1)
      | (Inr tokens, s1) \<Rightarrow> (Reply 200 (Some tokens), s1))"

definition scan_route ::
  "('w, 'n) env \<Rightarrow> string \<Rightarrow> ('w, 'n) st \<Rightarrow> response \<times> ('w, 'n) st" where
  "scan_route env address =
     route [] (accept (scan_params_schema address) address) (scan_handler env)"

text \<open>\<^verbatim>\<open>GET /api/token/:tokenId\<close>: the schema makes the path parameter an integer.\<close>

definition token_handler ::
  "('w, 'n) env \<Rightarrow> int \<Rightarrow> ('w, 'n) st \<Rightarrow> response \<times> ('w, 'n) st" where
  "token_handler env tokenId s =
     (case invoke (GetTokenInfo tokenId) (getTokenInfo env tokenId) s of
        (Inl e, s1) \<Rightarrow> (Failed e, s1)
      | (Inr tokenInfo, s1) \<Rightarrow> (Reply 200 (Some tokenInfo), s1))"

definition token_route ::
  "('w, 'n) env \<Rightarrow> int \<Rightarrow> ('w, 'n) st \<Rightarrow> response \<times> ('w, 'n) st" where
  "token_route env tokenId = route [] (Some tokenId) (token_handler env)"

text \<open>
  \<^verbatim>\<open>PUT /api/events/:fancyid\<close>. The body has the four required fields and may have
  others (the schema does not forbid them), hence the record scheme; the handler copies
  the four into the object it passes on. It returns (does not throw) the NotFound error;
  the framework sends a returned error object as the error reply all the same.
\<close>

definition put_event_handler ::
  "('w, 'n) env \<Rightarrow> string \<Rightarrow> 'a EventUpdate_scheme \<Rightarrow> ('w, 'n) st
     \<Rightarrow> response \<times> ('w, 'n) st" where
  "put_event_handler env fancyid body s =
     (let changes = \<lparr>signer = signer body, signer_ip = signer_ip body,
                     event_url = event_url body, image_url = image_url body\<rparr>
      in case invoke (UpdateEvent fancyid changes) (updateEvent env fancyid changes) s of
           (Inl e, s1) \<Rightarrow> (Failed e, s1)
         | (Inr isOk, s1) \<Rightarrow>
             if \<not> isOk then (Failed (NotFound ''Invalid event''), s1)
             else (Reply 204 None, s1))"

definition put_event_route ::
  "('w, 'n) env \<Rightarrow> string option \<Rightarrow> string \<Rightarrow> 'a EventUpdate_scheme \<Rightarrow> ('w, 'n) st
     \<Rightarrow> response \<times> ('w, 'n) st" where
  "put_event_route env credential fancyid body =
     route [invoke (Authenticate credential) (authenticate env credential)]
       (put_event_body_schema body) (put_event_handler env fancyid)"

text \<open>
  \<^verbatim>\<open>POST /api/mintTokenBatch\<close>: the handler awaits \<^verbatim>\<open>mintTokens\<close> and does not use
  what it resolves to.
\<close>

definition mintTokenBatch_handler ::
  "('w, 'n) env \<Rightarrow> MintTokenBatchBody \<Rightarrow> ('w, 'n) st \<Rightarrow> response \<times> ('w, 'n) st" where
  "mintTokenBatch_handler env body s =
     (case invoke (MintTokens (MintTokenBatchBody.eventId body) (addresses body))
             (mintTokens env (MintTokenBatchBody.eventId body) (addresses body)) s of
        (Inl e, s1) \<Rightarrow> (Failed e, s1)
      | (Inr outcomes, s1) \<Rightarrow> (Reply 204 None, s1))"

definition mintTokenBatch_route ::
  "('w, 'n) env \<Rightarrow> string option \<Rightarrow> MintTokenBatchBody \<Rightarrow> ('w, 'n) st
     \<Rightarrow> response \<times> ('w, 'n) st" where
  "mintTokenBatch_route env credential body =
     route [invoke (Authenticate credential) (authenticate env credential)]
       (accept (mintTokenBatch_body_schema body) body) (mintTokenBatch_handler env)"

text \<open>\<^verbatim>\<open>POST /api/claim\<close>\<close>

definition claim_handler ::
  "('w, 'n) env \<Rightarrow> Claim \<Rightarrow> ('w, 'n) st \<Rightarrow> response \<times> ('w, 'n) st" where
  "claim_handler env claim s =
     (case invoke (VerifyClaim claim) (verifyClaim env claim) s of
        (Inl e, s1) \<Rightarrow> (Failed e, s1)
      | (Inr isValid, s1) \<Rightarrow>
          if isValid then
            (case invoke (MintToken (eventId claim) (claimer claim))
                    (mintToken env (eventId claim) (claimer claim)) s1 of
               (Inl e, s2) \<Rightarrow> (Failed e, s2)
             | (Inr receipt, s2) \<Rightarrow> (Reply 204 None, s2))
          else (Failed (BadRequest ''Invalid Claim''), s1))"

definition claim_route ::
  "('w, 'n) env \<Rightarrow> Claim \<Rightarrow> ('w, 'n) st \<Rightarrow> response \<times> ('w, 'n) st" where
  "claim_route env body = route [] (accept (claim_body_schema body) body) (claim_handler env)"

section \<open>The collaborators as the spec describes them\<close>

text \<open>
  The modules \<^verbatim>\<open>../db\<close> and \<^verbatim>\<open>../poap-helper\<close> and the authentication decorator are
  not part of the routes file. This section gives one instance of them, written from the
  spec, over a store of events, token infos, redeemed claim ids and the mints the ledger
  has executed.
\<close>

record store =
  events :: "PoapEvent list"
  tokens :: "(int \<times> json) list"
  redeemed :: "string list"
  ledger_up :: bool
  minted :: "(int \<times> string) list"

text \<open>
  Modelled from the spec: \<^verbatim>\<open>fastify.authenticate\<close> is missing. Section 1 says the core
  consumes the fact whether the request is privileged, section 7 that a missing or invalid
  credential is Unauthorized, 401/403: here 401 when the credential is missing and 403
  when it is not a privileged one.
\<close>

definition spec_authenticate ::
  "(string \<Rightarrow> bool) \<Rightarrow> string option \<Rightarrow> 'w \<Rightarrow> (exn + unit) \<times> 'w" where
  "spec_authenticate privileged credential w =
     (case credential of
        None \<Rightarrow> (Inl (HttpError 401 ''Unauthorized''), w)
      | Some token \<Rightarrow>
          if privileged token then (Inr (), w) else (Inl (HttpError 403 ''Forbidden''), w))"

text \<open>
  Modelled from the spec: \<^verbatim>\<open>getEvent\<close> of \<^verbatim>\<open>../db\<close> is missing. It reads the event
  with the given numeric id, if any; a number that is not an integer (\<open>None\<close>) finds none.
\<close>

definition spec_getEvent :: "int option \<Rightarrow> store \<Rightarrow> (exn + PoapEvent option) \<times> store" where
  "spec_getEvent n st =
     (case n of
        None \<Rightarrow> (Inr None, st)
      | Some i \<Rightarrow> (Inr (find (\<lambda>ev. event_id ev = i) (events st)), st))"

text \<open>
  Modelled from the spec: \<^verbatim>\<open>updateEvent\<close> of \<^verbatim>\<open>../db\<close> is missing. Section 6 has
  \<^verbatim>\<open>PUT /api/events/:fancyid\<close> answer 404 for an unknown event: \<^verbatim>\<open>updateEvent\<close> tells
  whether an event has the fancy id. The spec does not say what the store's write does
  to the events; that is the parameter \<open>write\<close>.
\<close>

definition spec_updateEvent ::
  "(string \<Rightarrow> EventUpdate \<Rightarrow> PoapEvent list \<Rightarrow> PoapEvent list)
     \<Rightarrow> string \<Rightarrow> EventUpdate \<Rightarrow> store \<Rightarrow> (exn + bool) \<times> store" where
  "spec_updateEvent write fancyid changes st =
     (Inr (list_ex (\<lambda>ev. fancy_id ev = fancyid) (events st)),
      st\<lparr>events := write fancyid changes (events st)\<rparr>)"

text \<open>
  Modelled from the spec: \<^verbatim>\<open>getTokenInfo\<close> and \<^verbatim>\<open>getAllTokens\<close> of
  \<^verbatim>\<open>../poap-helper\<close> are missing. Section 6 gives \<^verbatim>\<open>GET /api/token/:tokenId\<close> the
  success "200, token info" and the failure 404, section 7 maps NotFound (unknown token)
  to 404: the lookup of an unknown token throws NotFound.
\<close>

definition spec_getTokenInfo :: "int \<Rightarrow> store \<Rightarrow> (exn + json) \<times> store" where
  "spec_getTokenInfo tokenId st =
     (case map_of (tokens st) tokenId of
        None \<Rightarrow> (Inl (NotFound ''Invalid Token''), st)
      | Some tokenInfo \<Rightarrow> (Inr tokenInfo, st))"

definition owner_is :: "string \<Rightarrow> json \<Rightarrow> bool" where
  "owner_is address tokenInfo = (field ''owner'' tokenInfo = Some (JString address))"

definition spec_getAllTokens :: "string \<Rightarrow> store \<Rightarrow> (exn + json) \<times> store" where
  "spec_getAllTokens address st =
     (Inr (JArray (filter (owner_is address) (map snd (tokens st)))), st)"

text \<open>
  Modelled from the spec: the ledger client behind \<^verbatim>\<open>mintToken\<close> and \<^verbatim>\<open>mintTokens\<close>
  is missing. Section 1 calls the ledger an external sink that can fail; section 4.3 has
  \<^verbatim>\<open>mintSingle\<close> return the outcome of one submission and \<^verbatim>\<open>mintBatch\<close> one outcome
  per address, in the order of the input, a failure not stopping the others. A malformed
  address is a permanent failure; a ledger that is down fails every submission.
\<close>

definition outcome :: "string \<Rightarrow> bool \<Rightarrow> json" where
  "outcome address ok =
     JObject [(''address'', JString address), (''success'', JBool ok)]"

definition spec_mintToken :: "int \<Rightarrow> string \<Rightarrow> store \<Rightarrow> (exn + json) \<times> store" where
  "spec_mintToken event recipient st =
     (if \<not> ledger_up st then (Inl (Failure ''ledger unavailable''), st)
      else if \<not> spec_Address recipient then (Inl (Failure ''malformed address''), st)
      else (Inr (outcome recipient True), st\<lparr>minted := minted st @ [(event, recipient)]\<rparr>))"

fun spec_mintBatch :: "int \<Rightarrow> string list \<Rightarrow> store \<Rightarrow> json list \<times> store" where
  "spec_mintBatch event [] st = ([], st)"
| "spec_mintBatch event (a # as) st =
     (case spec_mintToken event a st of
        (Inl e, st1) \<Rightarrow>
          (case spec_mintBatch event as st1 of (os, st2) \<Rightarrow> (outcome a False # os, st2))
      | (Inr ok, st1) \<Rightarrow>
          (case spec_mintBatch event as st1 of (os, st2) \<Rightarrow> (ok # os, st2)))"

definition spec_mintTokens :: "int \<Rightarrow> string list \<Rightarrow> store \<Rightarrow> (exn + json) \<times> store" where
  "spec_mintTokens event recipients st =
     (case spec_mintBatch event recipients st of (os, st1) \<Rightarrow> (Inr (JArray os), st1))"

text \<open>
  Modelled from the spec: \<^verbatim>\<open>verifyClaim\<close> of \<^verbatim>\<open>../poap-helper\<close> is missing. Section
  4.2 gives the checks of the claim authorizer in order, each with its reason for
  rejection; on success the claim id becomes redeemed. Signature recovery and the two
  message bindings are cryptography outside the model and are parameters.
\<close>

record crypto =
  recoverSigner :: "string \<Rightarrow> string \<Rightarrow> string"
  bind_claim :: "string \<Rightarrow> int \<Rightarrow> string \<Rightarrow> string"
  bind_consent :: "string \<Rightarrow> string"

datatype rejection =
    MalformedClaim
  | EventNotActive
  | AlreadyRedeemed
  | InvalidProof
  | InvalidClaimerSignature

datatype authorization = Authorized | Rejected rejection

definition authorize :: "crypto \<Rightarrow> store \<Rightarrow> Claim \<Rightarrow> PoapEvent \<Rightarrow> authorization" where
  "authorize cr st claim event =
     (if eventId claim \<noteq> event_id event \<or> \<not> spec_Address (claimer claim)
         \<or> \<not> spec_Signature (proof' claim) \<or> \<not> spec_Signature (claimerSignature claim)
      then Rejected MalformedClaim
      else case signer event of
        None \<Rightarrow> Rejected EventNotActive
      | Some event_signer \<Rightarrow>
          if claimId claim \<in> set (redeemed st) then Rejected AlreadyRedeemed
          else if recoverSigner cr (bind_claim cr (claimId claim) (eventId claim) (claimer claim))
                    (proof' claim) \<noteq> event_signer
          then Rejected InvalidProof
          else if recoverSigner cr (bind_consent cr (claimId claim)) (claimerSignature claim)
                    \<noteq> claimer claim
          then Rejected InvalidClaimerSignature
          else Authorized)"

definition spec_verifyClaim :: "crypto \<Rightarrow> Claim \<Rightarrow> store \<Rightarrow> (exn + bool) \<times> store" where
  "spec_verifyClaim cr claim st =
     (case find (\<lambda>ev. event_id ev = eventId claim) (events st) of
        None \<Rightarrow> (Inr False, st)
      | Some event \<Rightarrow>
          (case authorize cr st claim event of
             Authorized \<Rightarrow> (Inr True, st\<lparr>redeemed := claimId claim # redeemed st\<rparr>)
           | Rejected reason \<Rightarrow> (Inr False, st)))"

text \<open>
  An instance of the JavaScript built-in for the examples: the value of the leading
  decimal digits, and \<open>None\<close> (NaN) when there is none. It agrees with \<^verbatim>\<open>parseInt\<close> on the
  decimal numerals the examples use.
\<close>

definition digit_value :: "char \<Rightarrow> int" where
  "digit_value c = int (of_char c) - 48"

definition is_digit :: "char \<Rightarrow> bool" where
  "is_digit c = (48 \<le> (of_char c :: nat) \<and> (of_char c :: nat) \<le> 57)"

definition parseInt_digits :: "string \<Rightarrow> int option" where
  "parseInt_digits s =
     (case takeWhile is_digit s of
        [] \<Rightarrow> None
      | d # ds \<Rightarrow> Some (foldl (\<lambda>acc c. 10 * acc + digit_value c) 0 (d # ds)))"

definition spec_env ::
  "crypto \<Rightarrow> (string \<Rightarrow> bool) \<Rightarrow> (string \<Rightarrow> EventUpdate \<Rightarrow> PoapEvent list \<Rightarrow> PoapEvent list)
     \<Rightarrow> (store, int option) env" where
  "spec_env cr privileged write =
     \<lparr>parseInt = parseInt_digits,
      authenticate = spec_authenticate privileged,
      getEvent = spec_getEvent,
      getAllTokens = spec_getAllTokens,
      getTokenInfo = spec_getTokenInfo,
      updateEvent = spec_updateEvent write,
      mintTokens = spec_mintTokens,
      verifyClaim = spec_verifyClaim cr,
      mintToken = spec_mintToken\<rparr>"

section \<open>Example data\<close>

definition example_event :: PoapEvent where
  "example_event =
     \<lparr>signer = None, signer_ip = None,
      event_url = ''https://devcon.org'', image_url = ''https://devcon.org/logo.png'',
      event_id = 1, fancy_id = ''devcon6'', name = ''Devcon 6'',
      description = ''Developer conference'', city = ''Bogota'', country = ''Colombia'',
      start_date = ''2022-10-11'', end_date = ''2022-10-14'', year = 2022\<rparr>"

definition example_signer :: string where
  "example_signer = ''0xAAAAAAAAAAAAAAAAAAAAAAAAAAAAAAAAAAAAAAAA''"

definition example_claimer :: string where
  "example_claimer = ''0xbbbbbbbbbbbbbbbbbbbbbbbbbbbbbbbbbbbbbbbb''"

text \<open>
  A stand-in for signature recovery in the examples: a signature carries its signer's
  forty digits after the prefix, whatever the message.
\<close>

definition example_crypto :: crypto where
  "example_crypto =
     \<lparr>recoverSigner = (\<lambda>message signature. take 42 signature),
      bind_claim = (\<lambda>claimId event claimer. claimId @ ''|'' @ claimer),
      bind_consent = (\<lambda>claimId. claimId)\<rparr>"

definition signature_by :: "string \<Rightarrow> string" where
  "signature_by address = address @ replicate 90 CHR ''0''"

definition example_privileged :: "string \<Rightarrow> bool" where
  "example_privileged token = (token = ''Bearer admin'')"

definition active_event :: PoapEvent where
  "active_event = example_event\<lparr>signer := Some example_signer\<rparr>"

definition example_token :: json where
  "example_token =
     JObject [(''tokenId'', JNumber 7), (''owner'', JString example_claimer),
              (''event'', JString ''devcon6'')]"

definition example_store :: store where
  "example_store =
     \<lparr>events = [active_event, example_event\<lparr>event_id := 2, fancy_id := ''ethcc''\<rparr>],
      tokens = [(7, example_token)],
      redeemed = [''c0''],
      ledger_up = True,
      minted = []\<rparr>"

definition example_claim :: Claim where
  "example_claim =
     \<lparr>claimId = ''c1'', eventId = 1, proof' = signature_by example_signer,
      claimer = example_claimer, claimerSignature = signature_by example_claimer\<rparr>"

text \<open>A write for the examples: the four fields go into the events with the fancy id.\<close>

definition example_write :: "string \<Rightarrow> EventUpdate \<Rightarrow> PoapEvent list \<Rightarrow> PoapEvent list" where
  "example_write fancyid changes evs =
     map (\<lambda>ev. if fancy_id ev = fancyid
               then ev\<lparr>signer := signer changes, signer_ip := signer_ip changes,
                       event_url := event_url changes, image_url := image_url changes\<rparr>
               else ev) evs"

definition example_env :: "(store, int option) env" where
  "example_env = spec_env example_crypto example_privileged example_write"

definition short_address :: string where
  "short_address = ''0x12''"

definition example_update :: EventUpdate where
  "example_update =
     \<lparr>signer = Some example_signer, signer_ip = None,
      event_url = ''https://devcon.org/6'', image_url = ''https://devcon.org/6.png''\<rparr>"

definition example_batch :: MintTokenBatchBody where
  "example_batch = \<lparr>MintTokenBatchBody.eventId = 1, addresses = [example_claimer, example_signer]\<rparr>"

definition admin :: "string option" where
  "admin = Some ''Bearer admin''"

definition down_store :: store where
  "down_store = example_store\<lparr>ledger_up := False\<rparr>"

definition inactive_claim :: Claim where
  "inactive_claim = example_claim\<lparr>eventId := 2\<rparr>"

definition forged_claim :: Claim where
  "forged_claim = example_claim\<lparr>proof' := signature_by example_claimer\<rparr>"

definition replayed_claim :: Claim where
  "replayed_claim = example_claim\<lparr>claimId := ''c0''\<rparr>"

definition unconsented_claim :: Claim where
  "unconsented_claim = example_claim\<lparr>claimerSignature := signature_by example_signer\<rparr>"

definition inactive_event :: PoapEvent where
  "inactive_event = example_event\<lparr>event_id := 2, fancy_id := ''ethcc''\<rparr>"

definition privileged_credential :: "(string \<Rightarrow> bool) \<Rightarrow> string option \<Rightarrow> bool" where
  "privileged_credential privileged credential =
     (case credential of None \<Rightarrow> False | Some token \<Rightarrow> privileged token)"

section \<open>The metadata document\<close>

text \<open>
  C6, as the code has it. For every token URL and every event, \<open>buildMetadataJson\<close>
  returns the object with the keys description, external_url, home_url, image, image_url,
  name, year, tags, attributes and properties, in that order: both URLs are the token URL,
  both image references are the event's image_url, the tags are poap and event, the
  attribute list holds exactly five attributes labelled startDate, endDate, city, country
  and eventURL with the event's start_date, end_date, city, country and event_url, in that
  order, and properties is the empty list.
\<close>

theorem buildMetadataJson_document:
  "keys (buildMetadataJson tokenUrl ev) =
     [''description'', ''external_url'', ''home_url'', ''image'', ''image_url'', ''name'',
      ''year'', ''tags'', ''attributes'', ''properties'']
   \<and> field ''description'' (buildMetadataJson tokenUrl ev) = Some (JString (description ev))
   \<and> field ''external_url'' (buildMetadataJson tokenUrl ev) = Some (JString tokenUrl)
   \<and> field ''home_url'' (buildMetadataJson tokenUrl ev) = Some (JString tokenUrl)
   \<and> field ''image'' (buildMetadataJson tokenUrl ev) = Some (JString (image_url ev))
   \<and> field ''image_url'' (buildMetadataJson tokenUrl ev) = Some (JString (image_url ev))
   \<and> field ''name'' (buildMetadataJson tokenUrl ev) = Some (JString (name ev))
   \<and> field ''year'' (buildMetadataJson tokenUrl ev) = Some (JNumber (year ev))
   \<and> field ''tags'' (buildMetadataJson tokenUrl ev)
       = Some (JArray [JString ''poap'', JString ''event''])
   \<and> field ''attributes'' (buildMetadataJson tokenUrl ev)
       = Some (JArray
           [JObject [(''trait_type'', JString ''startDate''), (''value'', JString (start_date ev))],
            JObject [(''trait_type'', JString ''endDate''), (''value'', JString (end_date ev))],
            JObject [(''trait_type'', JString ''city''), (''value'', JString (city ev))],
            JObject [(''trait_type'', JString ''country''), (''value'', JString (country ev))],
            JObject [(''trait_type'', JString ''eventURL''), (''value'', JString (event_url ev))]])
   \<and> field ''properties'' (buildMetadataJson tokenUrl ev) = Some (JArray [])"
  by (simp add: buildMetadataJson_def attribute_def)

text \<open>
  C6, as the claim words it, fails at this event: the claim labels the fifth attribute
  eventUrL where the code writes eventURL, and the document has a tenth key, properties,
  which the claim's list of the schema leaves out.
\<close>

theorem buildMetadataJson_labels_counterexample:
  "trait_types (buildMetadataJson ''http://localhost:3000/metadata/1/7'' example_event)
     \<noteq> [Some (JString ''startDate''), Some (JString ''endDate''), Some (JString ''city''),
         Some (JString ''country''), Some (JString ''eventUrL'')]
   \<and> field ''properties'' (buildMetadataJson ''http://localhost:3000/metadata/1/7'' example_event)
     = Some (JArray [])"
  by (simp add: trait_types_def buildMetadataJson_def attribute_def)

section \<open>Validation at the boundary\<close>

lemma char_eq_code: "(c = d) = (of_char c = (of_char d :: nat))"
  by simp

lemma atom_matches_hex_class: "atom_matches hex_class c = is_hex_digit c"
proof -
  let ?codes = "{48, 49, 50, 51, 52, 53, 54, 55, 56, 57, 97, 98, 99, 100, 101, 102,
                 65, 66, 67, 68, 69, 70 :: nat}"
  have "is_hex_digit c = (of_char c \<in> ?codes)"
    unfolding is_hex_digit_def by (simp add: char_eq_code [of c])
  moreover have "atom_matches hex_class c = (of_char c \<in> ?codes)"
    unfolding hex_class_def by (simp; arith)
  ultimately show ?thesis by simp
qed

lemma repeat_match_Some:
  "repeat_match a n s = Some r \<longleftrightarrow>
     n \<le> length s \<and> list_all (atom_matches a) (take n s) \<and> r = drop n s"
  by (induction a n s rule: repeat_match.induct) auto

lemma repeat_match_all:
  "(case repeat_match a n s of None \<Rightarrow> False | Some rest \<Rightarrow> rest = []) \<longleftrightarrow>
     length s = n \<and> list_all (atom_matches a) s"
  by (induction a n s rule: repeat_match.induct) auto

lemma regex_test_single:
  "regex_test [(a, n)] s \<longleftrightarrow> length s = n \<and> list_all (atom_matches a) s"
  using repeat_match_all [of a n s] by (simp split: option.splits)

lemma regex_test_Lit:
  "regex_test ((Lit a, Suc 0) # ps) s \<longleftrightarrow> (\<exists>cs. s = a # cs \<and> regex_test ps cs)"
  by (cases s) auto

lemma regex_test_prefixed:
  "regex_test [(Lit CHR ''0'', Suc 0), (Lit CHR ''x'', Suc 0), (hex_class, n)] s \<longleftrightarrow>
     spec_hex_string n s"
proof -
  have hex: "atom_matches hex_class = is_hex_digit"
    by (rule ext) (rule atom_matches_hex_class)
  have "spec_hex_string n s \<longleftrightarrow>
          (\<exists>ds. s = CHR ''0'' # CHR ''x'' # ds \<and> length ds = n \<and> list_all is_hex_digit ds)"
  proof (cases s)
    case Nil
    then show ?thesis by (simp add: spec_hex_string_def)
  next
    case (Cons c cs)
    then show ?thesis by (cases cs) (auto simp: spec_hex_string_def)
  qed
  then show ?thesis
    by (simp only: regex_test_Lit regex_test_single hex) auto
qed

lemma validate_address: "validate_string address_schema s \<longleftrightarrow> spec_Address s"
proof -
  have "regex_test (pattern address_schema) s \<longleftrightarrow> spec_hex_string 40 s"
    by (simp add: address_schema_def regex_test_prefixed del: regex_test.simps)
  then show ?thesis
    by (auto simp: validate_string_def spec_Address_def spec_hex_string_def address_schema_def)
qed

lemma validate_signature: "validate_string signature_schema s \<longleftrightarrow> spec_Signature s"
proof -
  have "regex_test (pattern signature_schema) s \<longleftrightarrow> spec_hex_string 130 s"
    by (simp add: signature_schema_def regex_test_prefixed del: regex_test.simps)
  then show ?thesis
    by (auto simp: validate_string_def spec_Signature_def spec_hex_string_def signature_schema_def)
qed

lemma route_nohooks_invalid: "route [] None h s = (Failed ValidationError, s)"
  by (simp add: route_def)

lemma route_nohooks_valid: "route [] (Some r) h s = h r s"
  by (simp add: route_def)

lemma route_auth:
  "route [invoke (Authenticate cred) (authenticate env cred)] v h s =
     (case authenticate env cred (fst s) of
        (Inl e, w') \<Rightarrow> (Failed e, (w', snd s @ [Authenticate cred]))
      | (Inr u, w') \<Rightarrow>
          (case v of
             None \<Rightarrow> (Failed ValidationError, (w', snd s @ [Authenticate cred]))
           | Some r \<Rightarrow> h r (w', snd s @ [Authenticate cred])))"
  by (simp add: route_def invoke_def split: prod.splits sum.splits)

lemma spec_authenticate_cases:
  "authenticate (spec_env cr p wr) cred w
     = (if privileged_credential p cred then (Inr (), w)
        else (Inl (HttpError (if cred = None then 401 else 403)
                     (if cred = None then ''Unauthorized'' else ''Forbidden'')), w))"
  by (simp add: spec_env_def spec_authenticate_def privileged_credential_def
      split: option.splits)

lemma anyOf_signer:
  "anyOf [ref_string address_schema, type_null] d =
     (case d of
        None \<Rightarrow> (True, None)
      | Some a \<Rightarrow>
          if spec_Address a then (True, Some a)
          else if a = [] then (True, None) else (False, Some a))"
proof -
  have "\<not> spec_Address []"
    by (simp add: spec_Address_def spec_hex_string_def)
  then show ?thesis
    by (simp add: ref_string_def type_string_def type_null_def validate_address
        split: option.splits)
qed

lemma anyOf_signer_ip:
  "anyOf [type_string, type_null] d = (True, case d of None \<Rightarrow> Some [] | Some s \<Rightarrow> Some s)"
  by (simp add: type_string_def split: option.splits)

lemma put_event_body_schema_cases:
  "put_event_body_schema b =
     (case signer b of
        None \<Rightarrow>
          Some (b\<lparr>signer := None,
                  signer_ip := (case signer_ip b of None \<Rightarrow> Some [] | Some s \<Rightarrow> Some s)\<rparr>)
      | Some a \<Rightarrow>
          if spec_Address a
          then Some (b\<lparr>signer := Some a,
                       signer_ip := (case signer_ip b of None \<Rightarrow> Some [] | Some s \<Rightarrow> Some s)\<rparr>)
          else if a = []
          then Some (b\<lparr>signer := None,
                       signer_ip := (case signer_ip b of None \<Rightarrow> Some [] | Some s \<Rightarrow> Some s)\<rparr>)
          else None)"
  by (simp add: put_event_body_schema_def anyOf_signer anyOf_signer_ip del: anyOf.simps
      split: option.splits)

text \<open>
  C5, as the code has it. The address schema accepts exactly the strings of the form 0x
  followed by forty hexadecimal digits, the signature schema exactly those with one
  hundred and thirty: a string of another length, with another prefix or with a character
  that is not a hexadecimal digit fails them. A request in which such a string stands
  where a route expects an address or a signature is rejected before the handler runs, so
  that no collaborator of the business logic is called, with one exception: the empty
  string as the signer of a PUT body, which the validator's coercion rewrites to null, so
  that the request goes on without a signer. On the public routes (scan, claim) the reply
  is the validation error and neither the state nor the list of calls changes; on the
  privileged routes (PUT event, batch mint) the only call made is the authentication
  hook, which runs before validation, and the reply is the validation error once that
  hook has passed (the hook's own error otherwise); the state is as the hook left it.
  Every signer a PUT body holds after validation is null or an address.
\<close>

theorem boundary_patterns:
  "(validate_string address_schema a \<longleftrightarrow> spec_Address a)
   \<and> (validate_string signature_schema g \<longleftrightarrow> spec_Signature g)
   \<and> (\<not> spec_Address a \<longrightarrow> scan_route env a s = (Failed ValidationError, s))
   \<and> (\<not> spec_Signature (proof' c) \<or> \<not> spec_Address (claimer c)
        \<or> \<not> spec_Signature (claimerSignature c)
      \<longrightarrow> claim_route env c s = (Failed ValidationError, s))
   \<and> (signer b = Some a \<and> \<not> spec_Address a \<and> a \<noteq> [] \<longrightarrow>
        put_event_route env cred fancyid b s
          = (case authenticate env cred (fst s) of
               (Inl e, w') \<Rightarrow> (Failed e, (w', snd s @ [Authenticate cred]))
             | (Inr u, w') \<Rightarrow> (Failed ValidationError, (w', snd s @ [Authenticate cred]))))
   \<and> (signer b = Some [] \<longrightarrow>
        put_event_body_schema b
          = Some (b\<lparr>signer := None,
                    signer_ip := (case signer_ip b of None \<Rightarrow> Some [] | Some ip \<Rightarrow> Some ip)\<rparr>))
   \<and> (put_event_body_schema b = Some b' \<longrightarrow>
        (case signer b' of None \<Rightarrow> True | Some a' \<Rightarrow> spec_Address a'))
   \<and> (a \<in> set (addresses m) \<and> \<not> spec_Address a \<longrightarrow>
        mintTokenBatch_route env cred m s
          = (case authenticate env cred (fst s) of
               (Inl e, w') \<Rightarrow> (Failed e, (w', snd s @ [Authenticate cred]))
             | (Inr u, w') \<Rightarrow> (Failed ValidationError, (w', snd s @ [Authenticate cred]))))"
proof (intro conjI impI)
  show "validate_string address_schema a \<longleftrightarrow> spec_Address a"
    by (rule validate_address)
  show "validate_string signature_schema g \<longleftrightarrow> spec_Signature g"
    by (rule validate_signature)
  show "scan_route env a s = (Failed ValidationError, s)" if "\<not> spec_Address a"
    using that
    by (simp add: scan_route_def scan_params_schema_def validate_address accept_def
        route_nohooks_invalid)
  show "claim_route env c s = (Failed ValidationError, s)"
    if "\<not> spec_Signature (proof' c) \<or> \<not> spec_Address (claimer c)
        \<or> \<not> spec_Signature (claimerSignature c)"
  proof -
    from that have "\<not> claim_body_schema c"
      by (auto simp: claim_body_schema_def validate_address validate_signature)
    then show ?thesis by (simp add: claim_route_def accept_def route_nohooks_invalid)
  qed
next
  assume "signer b = Some a \<and> \<not> spec_Address a \<and> a \<noteq> []"
  then have "put_event_body_schema b = None"
    by (simp add: put_event_body_schema_cases)
  then show "put_event_route env cred fancyid b s
          = (case authenticate env cred (fst s) of
               (Inl e, w') \<Rightarrow> (Failed e, (w', snd s @ [Authenticate cred]))
             | (Inr u, w') \<Rightarrow> (Failed ValidationError, (w', snd s @ [Authenticate cred])))"
    by (simp add: put_event_route_def route_auth split: prod.splits sum.splits)
next
  assume "signer b = Some []"
  then show "put_event_body_schema b
          = Some (b\<lparr>signer := None,
                    signer_ip := (case signer_ip b of None \<Rightarrow> Some [] | Some ip \<Rightarrow> Some ip)\<rparr>)"
    by (simp add: put_event_body_schema_cases spec_Address_def spec_hex_string_def)
next
  assume "put_event_body_schema b = Some b'"
  then show "case signer b' of None \<Rightarrow> True | Some a' \<Rightarrow> spec_Address a'"
    by (auto simp: put_event_body_schema_cases split: option.splits if_splits)
next
  assume "a \<in> set (addresses m) \<and> \<not> spec_Address a"
  then have "\<not> mintTokenBatch_body_schema m"
    by (auto simp: mintTokenBatch_body_schema_def validate_address list_all_iff)
  then show "mintTokenBatch_route env cred m s
          = (case authenticate env cred (fst s) of
               (Inl e, w') \<Rightarrow> (Failed e, (w', snd s @ [Authenticate cred]))
             | (Inr u, w') \<Rightarrow> (Failed ValidationError, (w', snd s @ [Authenticate cred])))"
    by (simp add: mintTokenBatch_route_def accept_def route_auth split: prod.splits sum.splits)
qed

lemma short_address_rejected: "\<not> spec_Address short_address"
  by (simp add: spec_Address_def spec_hex_string_def short_address_def)

lemma example_claimer_Address: "spec_Address example_claimer"
  by (simp add: spec_Address_def spec_hex_string_def example_claimer_def is_hex_digit_def)

lemma example_signer_Address: "spec_Address example_signer"
  by (simp add: spec_Address_def spec_hex_string_def example_signer_def is_hex_digit_def)

lemma signature_by_Signature:
  "spec_Address a \<Longrightarrow> spec_Signature (signature_by a)"
  by (auto simp: spec_Address_def spec_Signature_def spec_hex_string_def signature_by_def
      list_all_iff is_hex_digit_def)

lemma example_authenticate_admin:
  "authenticate example_env admin w = (Inr (), w)"
  by (simp add: example_env_def spec_env_def spec_authenticate_def admin_def
      example_privileged_def)

theorem boundary_patterns_witness:
  "validate_string address_schema example_claimer
   \<and> \<not> validate_string address_schema short_address
   \<and> \<not> validate_string signature_schema short_address
   \<and> scan_route example_env short_address (example_store, [])
       = (Failed ValidationError, (example_store, []))
   \<and> claim_route example_env (example_claim\<lparr>claimer := short_address\<rparr>) (example_store, [])
       = (Failed ValidationError, (example_store, []))
   \<and> put_event_route example_env admin ''devcon6''
         (example_update\<lparr>signer := Some short_address\<rparr>) (example_store, [])
       = (Failed ValidationError, (example_store, [Authenticate admin]))
   \<and> put_event_body_schema (example_update\<lparr>signer := Some []\<rparr>)
       = Some (example_update\<lparr>signer := None, signer_ip := Some []\<rparr>)
   \<and> put_event_body_schema example_update = Some (example_update\<lparr>signer_ip := Some []\<rparr>)
   \<and> mintTokenBatch_route example_env admin
         (example_batch\<lparr>addresses := [example_claimer, short_address]\<rparr>) (example_store, [])
       = (Failed ValidationError, (example_store, [Authenticate admin]))"
proof -
  have bad: "\<not> spec_Address short_address" "short_address \<noteq> []"
    by (simp_all add: short_address_rejected) (simp add: short_address_def)
  have nosig: "\<not> spec_Signature short_address"
    by (simp add: spec_Signature_def spec_hex_string_def short_address_def)
  have auth: "authenticate example_env admin example_store = (Inr (), example_store)"
    by (rule example_authenticate_admin)
  note b = boundary_patterns [where a = short_address and g = short_address
      and env = example_env and s = "(example_store, [])" and cred = admin
      and c = "example_claim\<lparr>claimer := short_address\<rparr>"
      and b = "example_update\<lparr>signer := Some short_address\<rparr>"
      and m = "example_batch\<lparr>addresses := [example_claimer, short_address]\<rparr>"
      and fancyid = "''devcon6''"]
  have accepted: "validate_string address_schema example_claimer"
    using boundary_patterns [THEN conjunct1, of example_claimer] example_claimer_Address by simp
  have coerced: "put_event_body_schema (example_update\<lparr>signer := Some []\<rparr>)
       = Some (example_update\<lparr>signer := None, signer_ip := Some []\<rparr>)"
    using boundary_patterns [THEN conjunct2, THEN conjunct2, THEN conjunct2, THEN conjunct2,
        THEN conjunct2, THEN conjunct1, of "example_update\<lparr>signer := Some []\<rparr>"]
    by (simp add: example_update_def)
  have kept: "put_event_body_schema example_update = Some (example_update\<lparr>signer_ip := Some []\<rparr>)"
    by (simp add: put_event_body_schema_cases example_update_def example_signer_Address)
  from b bad nosig have
    "\<not> validate_string address_schema short_address"
    "\<not> validate_string signature_schema short_address"
    "scan_route example_env short_address (example_store, [])
       = (Failed ValidationError, (example_store, []))"
    "claim_route example_env (example_claim\<lparr>claimer := short_address\<rparr>) (example_store, [])
       = (Failed ValidationError, (example_store, []))"
    by simp_all
  moreover from b bad auth have
    "put_event_route example_env admin ''devcon6''
         (example_update\<lparr>signer := Some short_address\<rparr>) (example_store, [])
       = (Failed ValidationError, (example_store, [Authenticate admin]))"
    by simp
  moreover from b bad auth have
    "mintTokenBatch_route example_env admin
         (example_batch\<lparr>addresses := [example_claimer, short_address]\<rparr>) (example_store, [])
       = (Failed ValidationError, (example_store, [Authenticate admin]))"
    by simp
  ultimately show ?thesis using accepted coerced kept by simp
qed

section \<open>The claim route\<close>

lemma example_claim_schema: "claim_body_schema example_claim"
  by (simp add: claim_body_schema_def example_claim_def validate_address validate_signature
      example_claimer_Address example_signer_Address signature_by_Signature)

text \<open>
  C1, as the code has it. For every request to \<^verbatim>\<open>POST /api/claim\<close> whose body passes
  the schema: when \<^verbatim>\<open>verifyClaim\<close> resolves to false, the reply is 400 Invalid Claim and
  the only call made is that \<^verbatim>\<open>verifyClaim\<close> (\<^verbatim>\<open>mintToken\<close> is not called); when it
  resolves to true, \<^verbatim>\<open>mintToken\<close> is called exactly once, after it, with the claim's
  eventId and claimer, and the reply is 204 without a body if that call resolves and the
  error it throws if it throws.
\<close>

theorem claim_route_verify_then_mint:
  "claim_body_schema c \<Longrightarrow>
     (verifyClaim env c (fst s) = (Inr False, w1) \<longrightarrow>
        claim_route env c s
          = (Failed (HttpError 400 ''Invalid Claim''), (w1, snd s @ [VerifyClaim c])))
   \<and> (verifyClaim env c (fst s) = (Inr True, w1) \<longrightarrow>
        claim_route env c s
          = (case mintToken env (eventId c) (claimer c) w1 of
               (Inl e, w2) \<Rightarrow>
                 (Failed e, (w2, snd s @ [VerifyClaim c, MintToken (eventId c) (claimer c)]))
             | (Inr receipt, w2) \<Rightarrow>
                 (Reply 204 None, (w2, snd s @ [VerifyClaim c, MintToken (eventId c) (claimer c)]))))"
  by (simp add: claim_route_def accept_def route_nohooks_valid claim_handler_def invoke_def BadRequest_def
      split: prod.splits sum.splits)

lemma find_event_1: "find (\<lambda>ev. event_id ev = 1) (events example_store) = Some active_event"
  by (simp add: example_store_def active_event_def example_event_def)

lemma take_42_signature_by: "spec_Address a \<Longrightarrow> take 42 (signature_by a) = a"
  by (simp add: signature_by_def spec_Address_def spec_hex_string_def)

lemma authorize_example:
  "redeemed st = [''c0''] \<Longrightarrow> authorize example_crypto st example_claim active_event = Authorized"
  by (simp add: authorize_def example_claim_def active_event_def example_event_def
      example_claimer_Address example_signer_Address signature_by_Signature
      example_crypto_def take_42_signature_by)

lemma verifyClaim_example_down:
  "verifyClaim example_env example_claim down_store
     = (Inr True, down_store\<lparr>redeemed := [''c1'', ''c0'']\<rparr>)"
proof -
  have "find (\<lambda>ev. event_id ev = eventId example_claim) (events down_store) = Some active_event"
    using find_event_1 by (simp add: down_store_def example_claim_def)
  moreover have "authorize example_crypto down_store example_claim active_event = Authorized"
    by (rule authorize_example) (simp add: down_store_def example_store_def)
  ultimately show ?thesis
    by (simp add: example_env_def spec_env_def spec_verifyClaim_def)
       (simp add: down_store_def example_store_def example_claim_def)
qed

text \<open>
  C1, as the claim words it, promises 204 whenever \<^verbatim>\<open>verifyClaim\<close> resolves to true. With
  the ledger down the claim below is verified, \<^verbatim>\<open>mintToken\<close> is called once and throws,
  and the reply is an error with status 500.
\<close>

theorem claim_route_mint_failure_counterexample:
  "claim_body_schema example_claim
   \<and> fst (verifyClaim example_env example_claim down_store) = Inr True
   \<and> claim_route example_env example_claim (down_store, [])
       = (Failed (Failure ''ledger unavailable''),
          (down_store\<lparr>redeemed := [''c1'', ''c0'']\<rparr>,
           [VerifyClaim example_claim, MintToken 1 example_claimer]))
   \<and> status (fst (claim_route example_env example_claim (down_store, []))) = 500"
proof -
  have r: "claim_route example_env example_claim (down_store, [])
       = (Failed (Failure ''ledger unavailable''),
          (down_store\<lparr>redeemed := [''c1'', ''c0'']\<rparr>,
           [VerifyClaim example_claim, MintToken 1 example_claimer]))"
    using example_claim_schema verifyClaim_example_down
    by (simp add: claim_route_def accept_def route_nohooks_valid claim_handler_def invoke_def)
       (simp add: example_env_def spec_env_def spec_mintToken_def down_store_def example_claim_def)
  show ?thesis
    using example_claim_schema verifyClaim_example_down r by simp
qed

lemma find_event_2: "find (\<lambda>ev. event_id ev = 2) (events example_store) = Some inactive_event"
  by (simp add: example_store_def active_event_def example_event_def inactive_event_def)

lemma claim_variants_schema:
  "claim_body_schema inactive_claim" "claim_body_schema forged_claim"
  "claim_body_schema replayed_claim" "claim_body_schema unconsented_claim"
  using example_claim_schema
  by (simp_all add: claim_body_schema_def inactive_claim_def forged_claim_def replayed_claim_def
      unconsented_claim_def example_claim_def validate_signature signature_by_Signature
      example_claimer_Address example_signer_Address)

lemma authorize_inactive:
  "authorize example_crypto example_store inactive_claim inactive_event = Rejected EventNotActive"
  by (simp add: authorize_def inactive_claim_def inactive_event_def example_claim_def
      example_event_def example_claimer_Address example_signer_Address signature_by_Signature)

lemma authorize_forged:
  "authorize example_crypto example_store forged_claim active_event = Rejected InvalidProof"
  by (simp add: authorize_def forged_claim_def example_claim_def active_event_def
      example_event_def example_claimer_Address signature_by_Signature
      example_crypto_def take_42_signature_by example_store_def)
     (simp add: example_claimer_def example_signer_def)

lemma authorize_replayed:
  "authorize example_crypto example_store replayed_claim active_event = Rejected AlreadyRedeemed"
  by (simp add: authorize_def replayed_claim_def example_claim_def active_event_def
      example_event_def example_claimer_Address example_signer_Address signature_by_Signature
      example_store_def)

lemma authorize_unconsented:
  "authorize example_crypto example_store unconsented_claim active_event
     = Rejected InvalidClaimerSignature"
  by (simp add: authorize_def unconsented_claim_def example_claim_def active_event_def
      example_event_def example_claimer_Address example_signer_Address signature_by_Signature
      example_crypto_def take_42_signature_by example_store_def)
     (simp add: example_claimer_def example_signer_def)

lemma verifyClaim_rejections:
  "verifyClaim example_env inactive_claim example_store = (Inr False, example_store)"
  "verifyClaim example_env forged_claim example_store = (Inr False, example_store)"
  "verifyClaim example_env replayed_claim example_store = (Inr False, example_store)"
  "verifyClaim example_env unconsented_claim example_store = (Inr False, example_store)"
proof -
  have e1: "eventId forged_claim = 1" "eventId replayed_claim = 1" "eventId unconsented_claim = 1"
    by (simp_all add: forged_claim_def replayed_claim_def unconsented_claim_def example_claim_def)
  have e2: "eventId inactive_claim = 2"
    by (simp add: inactive_claim_def)
  show "verifyClaim example_env inactive_claim example_store = (Inr False, example_store)"
    by (simp add: example_env_def spec_env_def spec_verifyClaim_def e2 find_event_2
        authorize_inactive)
  show "verifyClaim example_env forged_claim example_store = (Inr False, example_store)"
    by (simp add: example_env_def spec_env_def spec_verifyClaim_def e1 find_event_1
        authorize_forged)
  show "verifyClaim example_env replayed_claim example_store = (Inr False, example_store)"
    by (simp add: example_env_def spec_env_def spec_verifyClaim_def e1 find_event_1
        authorize_replayed)
  show "verifyClaim example_env unconsented_claim example_store = (Inr False, example_store)"
    by (simp add: example_env_def spec_env_def spec_verifyClaim_def e1 find_event_1
        authorize_unconsented)
qed

lemma verifyClaim_example:
  "verifyClaim example_env example_claim example_store
     = (Inr True, example_store\<lparr>redeemed := [''c1'', ''c0'']\<rparr>)"
proof -
  have "find (\<lambda>ev. event_id ev = eventId example_claim) (events example_store) = Some active_event"
    using find_event_1 by (simp add: example_claim_def)
  moreover have "authorize example_crypto example_store example_claim active_event = Authorized"
    by (rule authorize_example) (simp add: example_store_def)
  ultimately show ?thesis
    by (simp add: example_env_def spec_env_def spec_verifyClaim_def)
       (simp add: example_store_def example_claim_def)
qed

theorem claim_route_verify_then_mint_witness:
  "claim_route example_env example_claim (example_store, [])
     = (Reply 204 None,
        (example_store\<lparr>redeemed := [''c1'', ''c0''], minted := [(1, example_claimer)]\<rparr>,
         [VerifyClaim example_claim, MintToken 1 example_claimer]))
   \<and> claim_route example_env forged_claim (example_store, [])
     = (Failed (HttpError 400 ''Invalid Claim''), (example_store, [VerifyClaim forged_claim]))"
proof -
  have mint: "mintToken example_env 1 example_claimer (example_store\<lparr>redeemed := [''c1'', ''c0'']\<rparr>)
      = (Inr (outcome example_claimer True),
         example_store\<lparr>redeemed := [''c1'', ''c0''], minted := [(1, example_claimer)]\<rparr>)"
    by (simp add: example_env_def spec_env_def spec_mintToken_def example_claimer_Address)
       (simp add: example_store_def)
  have c: "eventId example_claim = 1" "claimer example_claim = example_claimer"
    by (simp_all add: example_claim_def)
  from claim_route_verify_then_mint [OF example_claim_schema, of example_env "(example_store, [])"
      "example_store\<lparr>redeemed := [''c1'', ''c0'']\<rparr>"]
    verifyClaim_example mint c
  have "claim_route example_env example_claim (example_store, [])
     = (Reply 204 None,
        (example_store\<lparr>redeemed := [''c1'', ''c0''], minted := [(1, example_claimer)]\<rparr>,
         [VerifyClaim example_claim, MintToken 1 example_claimer]))"
    by simp
  moreover from claim_route_verify_then_mint [OF claim_variants_schema(2), of example_env
      "(example_store, [])" example_store] verifyClaim_rejections(2)
  have "claim_route example_env forged_claim (example_store, [])
     = (Failed (HttpError 400 ''Invalid Claim''), (example_store, [VerifyClaim forged_claim]))"
    by simp
  ultimately show ?thesis by simp
qed

lemma claim_route_rejected:
  assumes "claim_body_schema c" and "fst (verifyClaim env c (fst s)) = Inr False"
  shows "fst (claim_route env c s) = Failed (HttpError 400 ''Invalid Claim'')"
proof (cases "verifyClaim env c (fst s)")
  case (Pair r w1)
  with assms(2) have "verifyClaim env c (fst s) = (Inr False, w1)" by simp
  with assms(1) show ?thesis
    by (simp add: claim_route_def accept_def route_nohooks_valid claim_handler_def invoke_def BadRequest_def)
qed

text \<open>
  C3. Two claims that pass the schema and that \<^verbatim>\<open>verifyClaim\<close> rejects (resolves to
  false), for whatever reason and in whatever state, get the same reply: the error 400
  with the message Invalid Claim, which carries nothing of the reason.
\<close>

theorem claim_rejections_indistinguishable:
  "claim_body_schema c1 \<Longrightarrow> claim_body_schema c2 \<Longrightarrow>
   fst (verifyClaim env c1 (fst s1)) = Inr False \<Longrightarrow>
   fst (verifyClaim env c2 (fst s2)) = Inr False \<Longrightarrow>
     fst (claim_route env c1 s1) = fst (claim_route env c2 s2)
     \<and> fst (claim_route env c1 s1) = Failed (HttpError 400 ''Invalid Claim'')
     \<and> status (fst (claim_route env c1 s1)) = 400"
  by (simp add: claim_route_rejected)

text \<open>
  Four claims the authorizer of the spec rejects for four different reasons, and their
  replies.
\<close>

theorem claim_rejections_indistinguishable_witness:
  "authorize example_crypto example_store inactive_claim inactive_event = Rejected EventNotActive
   \<and> authorize example_crypto example_store forged_claim active_event = Rejected InvalidProof
   \<and> authorize example_crypto example_store replayed_claim active_event = Rejected AlreadyRedeemed
   \<and> authorize example_crypto example_store unconsented_claim active_event
       = Rejected InvalidClaimerSignature
   \<and> fst (claim_route example_env inactive_claim (example_store, []))
       = Failed (HttpError 400 ''Invalid Claim'')
   \<and> fst (claim_route example_env forged_claim (example_store, []))
       = fst (claim_route example_env inactive_claim (example_store, []))
   \<and> fst (claim_route example_env replayed_claim (example_store, []))
       = Failed (HttpError 400 ''Invalid Claim'')
   \<and> fst (claim_route example_env unconsented_claim (example_store, []))
       = fst (claim_route example_env replayed_claim (example_store, []))"
proof -
  let ?s = "(example_store, []) :: (store, int option) st"
  have v: "fst (verifyClaim example_env inactive_claim (fst ?s)) = Inr False"
    "fst (verifyClaim example_env forged_claim (fst ?s)) = Inr False"
    "fst (verifyClaim example_env replayed_claim (fst ?s)) = Inr False"
    "fst (verifyClaim example_env unconsented_claim (fst ?s)) = Inr False"
    by (simp_all add: verifyClaim_rejections)
  have a: "fst (claim_route example_env inactive_claim ?s)
        = fst (claim_route example_env forged_claim ?s)
      \<and> fst (claim_route example_env inactive_claim ?s)
        = Failed (HttpError 400 ''Invalid Claim'')
      \<and> status (fst (claim_route example_env inactive_claim ?s)) = 400"
    by (rule claim_rejections_indistinguishable
        [OF claim_variants_schema(1) claim_variants_schema(2) v(1) v(2)])
  have b: "fst (claim_route example_env replayed_claim ?s)
        = fst (claim_route example_env unconsented_claim ?s)
      \<and> fst (claim_route example_env replayed_claim ?s)
        = Failed (HttpError 400 ''Invalid Claim'')
      \<and> status (fst (claim_route example_env replayed_claim ?s)) = 400"
    by (rule claim_rejections_indistinguishable
        [OF claim_variants_schema(3) claim_variants_schema(4) v(3) v(4)])
  note a1 = a [THEN conjunct1] and a2 = a [THEN conjunct2, THEN conjunct1]
  note b1 = b [THEN conjunct1] and b2 = b [THEN conjunct2, THEN conjunct1]
  show ?thesis
    by (intro conjI authorize_inactive authorize_forged authorize_replayed
        authorize_unconsented a1 [symmetric] a2 b1 [symmetric] b2)
qed

section \<open>The batch mint route\<close>

lemma example_batch_schema: "mintTokenBatch_body_schema example_batch"
  by (simp add: mintTokenBatch_body_schema_def example_batch_def validate_address
      example_claimer_Address example_signer_Address)

lemma mintTokenBatch_route_reply:
  "authenticate env cred (fst s) = (Inr (), w1) \<Longrightarrow> mintTokenBatch_body_schema m \<Longrightarrow>
     mintTokenBatch_route env cred m s
       = (case mintTokens env (MintTokenBatchBody.eventId m) (addresses m) w1 of
            (Inl e, w2) \<Rightarrow>
              (Failed e,
               (w2, snd s @ [Authenticate cred,
                             MintTokens (MintTokenBatchBody.eventId m) (addresses m)]))
          | (Inr outcomes, w2) \<Rightarrow>
              (Reply 204 None,
               (w2, snd s @ [Authenticate cred,
                             MintTokens (MintTokenBatchBody.eventId m) (addresses m)])))"
  by (simp add: mintTokenBatch_route_def accept_def route_auth mintTokenBatch_handler_def
      invoke_def split: prod.splits sum.splits)

lemma spec_mintToken_cases:
  "spec_mintToken event a st =
     (if ledger_up st \<and> spec_Address a
      then (Inr (outcome a True), st\<lparr>minted := minted st @ [(event, a)]\<rparr>)
      else (Inl (Failure (if ledger_up st then ''malformed address'' else ''ledger unavailable'')),
            st))"
  by (simp add: spec_mintToken_def)

lemma spec_mintBatch_result:
  "spec_mintBatch event recipients st =
     (map (\<lambda>a. outcome a (ledger_up st \<and> spec_Address a)) recipients,
      st\<lparr>minted := minted st
            @ map (Pair event) (filter (\<lambda>a. ledger_up st \<and> spec_Address a) recipients)\<rparr>)"
proof (induction recipients arbitrary: st)
  case Nil
  show ?case by simp
next
  case (Cons a recipients)
  show ?case
    by (auto simp: spec_mintToken_cases Cons.IH)
qed

text \<open>
  C4. With the batch mint of the spec, whoever calls it with a sequence of N addresses
  receives exactly N outcomes; the outcome at each position carries the address at that
  position of the input, so the order is that of the input. Whether an outcome is a
  success depends on its own address (it must be well formed) and on the ledger being up,
  not on the addresses around it: a failure is recorded as a failed outcome and the
  addresses after it are still submitted, so that exactly the well-formed addresses are
  minted, in the order of the input. The route passes the whole list on in one call and
  answers 204 once the batch has been processed.
\<close>

theorem mintBatch_outcome_per_address:
  "length (fst (spec_mintBatch event recipients st)) = length recipients
   \<and> (\<forall>i < length recipients.
        field ''address'' (fst (spec_mintBatch event recipients st) ! i)
          = Some (JString (recipients ! i))
        \<and> field ''success'' (fst (spec_mintBatch event recipients st) ! i)
          = Some (JBool (ledger_up st \<and> spec_Address (recipients ! i))))
   \<and> minted (snd (spec_mintBatch event recipients st))
       = minted st
         @ map (Pair event) (filter (\<lambda>a. ledger_up st \<and> spec_Address a) recipients)
   \<and> spec_mintTokens event recipients st
       = (Inr (JArray (fst (spec_mintBatch event recipients st))),
          snd (spec_mintBatch event recipients st))
   \<and> (privileged_credential p cred \<and> mintTokenBatch_body_schema m \<longrightarrow>
        mintTokenBatch_route (spec_env cr p wr) cred m (st, calls)
          = (Reply 204 None,
             (snd (spec_mintBatch (MintTokenBatchBody.eventId m) (addresses m) st),
              calls @ [Authenticate cred,
                       MintTokens (MintTokenBatchBody.eventId m) (addresses m)])))"
proof (intro conjI allI impI)
  show "length (fst (spec_mintBatch event recipients st)) = length recipients"
    by (simp add: spec_mintBatch_result)
  show "minted (snd (spec_mintBatch event recipients st))
       = minted st
         @ map (Pair event) (filter (\<lambda>a. ledger_up st \<and> spec_Address a) recipients)"
    by (simp add: spec_mintBatch_result)
  show "spec_mintTokens event recipients st
       = (Inr (JArray (fst (spec_mintBatch event recipients st))),
          snd (spec_mintBatch event recipients st))"
    by (simp add: spec_mintTokens_def split: prod.splits)
next
  fix i
  assume "i < length recipients"
  then show "field ''address'' (fst (spec_mintBatch event recipients st) ! i)
          = Some (JString (recipients ! i))"
    and "field ''success'' (fst (spec_mintBatch event recipients st) ! i)
          = Some (JBool (ledger_up st \<and> spec_Address (recipients ! i)))"
    by (simp_all add: spec_mintBatch_result outcome_def)
next
  assume a: "privileged_credential p cred \<and> mintTokenBatch_body_schema m"
  then have "authenticate (spec_env cr p wr) cred (fst (st, calls)) = (Inr (), st)"
    by (simp add: spec_authenticate_cases)
  from mintTokenBatch_route_reply [OF this] a
  show "mintTokenBatch_route (spec_env cr p wr) cred m (st, calls)
          = (Reply 204 None,
             (snd (spec_mintBatch (MintTokenBatchBody.eventId m) (addresses m) st),
              calls @ [Authenticate cred,
                       MintTokens (MintTokenBatchBody.eventId m) (addresses m)]))"
    by (simp add: spec_env_def spec_mintTokens_def split: prod.splits)
qed

text \<open>
  A batch whose second address is malformed: three outcomes, the second failed, the first
  and the third minted. And a batch through the route.
\<close>

theorem mintBatch_outcome_per_address_witness:
  "fst (spec_mintBatch 1 [example_claimer, short_address, example_signer] example_store)
     = [outcome example_claimer True, outcome short_address False, outcome example_signer True]
   \<and> minted (snd (spec_mintBatch 1 [example_claimer, short_address, example_signer]
                    example_store))
     = [(1, example_claimer), (1, example_signer)]
   \<and> mintTokenBatch_route example_env admin example_batch (example_store, [])
     = (Reply 204 None,
        (example_store\<lparr>minted := [(1, example_claimer), (1, example_signer)]\<rparr>,
         [Authenticate admin, MintTokens 1 [example_claimer, example_signer]]))"
proof -
  let ?rs = "[example_claimer, short_address, example_signer]"
  let ?os = "fst (spec_mintBatch 1 ?rs example_store)"
  note t = mintBatch_outcome_per_address [where event = 1 and recipients = ?rs
      and st = example_store and p = example_privileged and cr = example_crypto
      and wr = example_write and cred = admin and m = example_batch and calls = "[]"]
  have up: "ledger_up example_store" "minted example_store = []"
    by (simp_all add: example_store_def)
  have ok: "spec_Address example_claimer" "\<not> spec_Address short_address"
    "spec_Address example_signer"
    by (rule example_claimer_Address short_address_rejected example_signer_Address)+
  have priv: "privileged_credential example_privileged admin"
    by (simp add: privileged_credential_def example_privileged_def admin_def)
  have os: "?os = [outcome example_claimer True, outcome short_address False,
      outcome example_signer True]"
    by (simp add: spec_mintBatch_result up ok)
  have m: "minted (snd (spec_mintBatch 1 ?rs example_store))
      = [(1, example_claimer), (1, example_signer)]"
    using t [THEN conjunct2, THEN conjunct2, THEN conjunct1] up ok by simp
  have b: "snd (spec_mintBatch 1 [example_claimer, example_signer] example_store)
      = example_store\<lparr>minted := [(1, example_claimer), (1, example_signer)]\<rparr>"
    by (simp add: spec_mintBatch_result up ok)
  have r: "mintTokenBatch_route example_env admin example_batch (example_store, [])
     = (Reply 204 None,
        (example_store\<lparr>minted := [(1, example_claimer), (1, example_signer)]\<rparr>,
         [Authenticate admin, MintTokens 1 [example_claimer, example_signer]]))"
    using t [THEN conjunct2, THEN conjunct2, THEN conjunct2, THEN conjunct2] priv
      example_batch_schema b
    by (simp add: example_env_def example_batch_def)
  from os m r show ?thesis by simp
qed

section \<open>The token route\<close>

lemma token_route_forwards:
  "token_route env tokenId s
     = (case getTokenInfo env tokenId (fst s) of
          (Inl e, w1) \<Rightarrow> (Failed e, (w1, snd s @ [GetTokenInfo tokenId]))
        | (Inr tokenInfo, w1) \<Rightarrow> (Reply 200 (Some tokenInfo), (w1, snd s @ [GetTokenInfo tokenId])))"
  by (simp add: token_route_def route_nohooks_valid token_handler_def invoke_def
      split: prod.splits sum.splits)

text \<open>
  C7. With the token lookup of the spec, \<^verbatim>\<open>GET /api/token/:tokenId\<close> for an integer
  token id replies 200 with the token info when the token exists, and fails with status
  404 when the token is unknown; the lookup is the only call made.
\<close>

theorem token_route_lookup:
  "(map_of (tokens st) tokenId = Some tokenInfo \<longrightarrow>
      token_route (spec_env cr privileged wr) tokenId (st, calls)
        = (Reply 200 (Some tokenInfo), (st, calls @ [GetTokenInfo tokenId])))
   \<and> (map_of (tokens st) tokenId = None \<longrightarrow>
      status (fst (token_route (spec_env cr privileged wr) tokenId (st, calls))) = 404
      \<and> snd (token_route (spec_env cr privileged wr) tokenId (st, calls))
          = (st, calls @ [GetTokenInfo tokenId]))"
  by (simp add: token_route_forwards spec_env_def spec_getTokenInfo_def NotFound_def)

theorem token_route_lookup_witness:
  "token_route example_env 7 (example_store, [])
     = (Reply 200 (Some example_token), (example_store, [GetTokenInfo 7]))
   \<and> status (fst (token_route example_env 8 (example_store, []))) = 404"
proof -
  have "map_of (tokens example_store) 7 = Some example_token"
    "map_of (tokens example_store) 8 = None"
    by (simp_all add: example_store_def)
  then show ?thesis
    using token_route_lookup [of example_store 7 example_token example_crypto example_privileged
          example_write "[]"]
      token_route_lookup [of example_store 8 example_token example_crypto example_privileged
          example_write "[]"]
    by (simp add: example_env_def)
qed

section \<open>The event update route\<close>

lemma put_event_handler_branches:
  "put_event_handler env fancyid b s
     = (let changes = \<lparr>signer = signer b, signer_ip = signer_ip b,
                       event_url = event_url b, image_url = image_url b\<rparr>
        in case updateEvent env fancyid changes (fst s) of
             (Inl e, w2) \<Rightarrow> (Failed e, (w2, snd s @ [UpdateEvent fancyid changes]))
           | (Inr isOk, w2) \<Rightarrow>
               ((if isOk then Reply 204 None else Failed (HttpError 404 ''Invalid event'')),
                (w2, snd s @ [UpdateEvent fancyid changes])))"
  by (simp add: put_event_handler_def invoke_def NotFound_def Let_def
      split: prod.splits sum.splits)

text \<open>
  What the handler passes on is the fancy id and the four fields: two bodies that agree
  on the four are handled alike, whatever else they carry.
\<close>

lemma put_event_handler_four_fields:
  "signer b = signer c \<Longrightarrow> signer_ip b = signer_ip c \<Longrightarrow> event_url b = event_url c \<Longrightarrow>
   image_url b = image_url c \<Longrightarrow>
     put_event_handler env fancyid b s = put_event_handler env fancyid c s"
  by (simp add: put_event_handler_def)

lemma put_event_route_spec:
  "put_event_route (spec_env cr p wr) cred fancyid b (st, calls)
     = (if \<not> privileged_credential p cred
        then (Failed (HttpError (if cred = None then 401 else 403)
                        (if cred = None then ''Unauthorized'' else ''Forbidden'')),
              (st, calls @ [Authenticate cred]))
        else case put_event_body_schema b of
          None \<Rightarrow> (Failed ValidationError, (st, calls @ [Authenticate cred]))
        | Some b' \<Rightarrow>
            ((if list_ex (\<lambda>ev. fancy_id ev = fancyid) (events st) then Reply 204 None
              else Failed (HttpError 404 ''Invalid event'')),
             (st\<lparr>events := wr fancyid \<lparr>signer = signer b', signer_ip = signer_ip b',
                event_url = event_url b', image_url = image_url b'\<rparr> (events st)\<rparr>,
              calls @ [Authenticate cred, UpdateEvent fancyid \<lparr>signer = signer b', signer_ip = signer_ip b',
                event_url = event_url b', image_url = image_url b'\<rparr>])))"
  by (simp add: put_event_route_def route_auth spec_authenticate_cases put_event_handler_branches
      Let_def split: option.splits)
     (simp add: spec_env_def spec_updateEvent_def)

text \<open>
  C8. The authentication hook of \<^verbatim>\<open>PUT /api/events/:fancyid\<close> runs before validation and
  before the handler. When it rejects the request, the reply is its error, the hook is the
  only call made (\<^verbatim>\<open>updateEvent\<close> is not invoked) and the state is as the hook left it.
  When it accepts a request whose body passes the schema, \<^verbatim>\<open>updateEvent\<close> is called
  once with the fancy id and the four fields of the validated body, and the reply is 204
  when it resolves to true and 404 when it resolves to false. With the authentication and
  the event store of the spec, whatever the store's write does: a request without a
  privileged credential is rejected with 401 or 403 and leaves the store unchanged; with a
  privileged credential the status is 204 when an event has the fancy id and 404 when
  none has.
\<close>

theorem put_event_route_guarded:
  "(authenticate env cred (fst s) = (Inl e, w1) \<longrightarrow>
      put_event_route env cred fancyid b s = (Failed e, (w1, snd s @ [Authenticate cred])))
   \<and> (authenticate env cred (fst s) = (Inr (), w1) \<and> put_event_body_schema b = Some b'
        \<and> updateEvent env fancyid
              \<lparr>signer = signer b', signer_ip = signer_ip b',
                event_url = event_url b', image_url = image_url b'\<rparr> w1
            = (Inr isOk, w2) \<longrightarrow>
      put_event_route env cred fancyid b s
        = ((if isOk then Reply 204 None else Failed (HttpError 404 ''Invalid event'')),
           (w2, snd s @ [Authenticate cred,
                         UpdateEvent fancyid
                           \<lparr>signer = signer b', signer_ip = signer_ip b',
                event_url = event_url b', image_url = image_url b'\<rparr>])))
   \<and> (\<not> privileged_credential p cred \<longrightarrow>
      status (fst (put_event_route (spec_env cr p wr) cred fancyid b (st, calls))) \<in> {401, 403}
      \<and> snd (put_event_route (spec_env cr p wr) cred fancyid b (st, calls))
          = (st, calls @ [Authenticate cred]))
   \<and> (privileged_credential p cred \<and> put_event_body_schema b = Some b' \<longrightarrow>
      status (fst (put_event_route (spec_env cr p wr) cred fancyid b (st, calls)))
        = (if list_ex (\<lambda>ev. fancy_id ev = fancyid) (events st) then 204 else 404))"
proof (intro conjI impI)
  show "put_event_route env cred fancyid b s = (Failed e, (w1, snd s @ [Authenticate cred]))"
    if "authenticate env cred (fst s) = (Inl e, w1)"
    using that by (simp add: put_event_route_def route_auth)
  show "put_event_route env cred fancyid b s
        = ((if isOk then Reply 204 None else Failed (HttpError 404 ''Invalid event'')),
           (w2, snd s @ [Authenticate cred,
                         UpdateEvent fancyid
                           \<lparr>signer = signer b', signer_ip = signer_ip b',
                event_url = event_url b', image_url = image_url b'\<rparr>]))"
    if "authenticate env cred (fst s) = (Inr (), w1) \<and> put_event_body_schema b = Some b'
        \<and> updateEvent env fancyid
              \<lparr>signer = signer b', signer_ip = signer_ip b',
                event_url = event_url b', image_url = image_url b'\<rparr> w1
            = (Inr isOk, w2)"
    using that by (simp add: put_event_route_def route_auth put_event_handler_branches Let_def)
next
  assume "\<not> privileged_credential p cred"
  then show "status (fst (put_event_route (spec_env cr p wr) cred fancyid b (st, calls)))
      \<in> {401, 403}"
    and "snd (put_event_route (spec_env cr p wr) cred fancyid b (st, calls))
          = (st, calls @ [Authenticate cred])"
    by (simp_all add: put_event_route_spec)
next
  assume "privileged_credential p cred \<and> put_event_body_schema b = Some b'"
  then show "status (fst (put_event_route (spec_env cr p wr) cred fancyid b (st, calls)))
        = (if list_ex (\<lambda>ev. fancy_id ev = fancyid) (events st) then 204 else 404)"
    by (simp add: put_event_route_spec)
qed

lemma example_update_schema:
  "put_event_body_schema example_update = Some (example_update\<lparr>signer_ip := Some []\<rparr>)"
  by (simp add: put_event_body_schema_cases example_update_def example_signer_Address)

lemma admin_privileged:
  "privileged_credential example_privileged admin"
  "\<not> privileged_credential example_privileged None"
  "\<not> privileged_credential example_privileged (Some ''Bearer guest'')"
  by (simp_all add: privileged_credential_def example_privileged_def admin_def)

theorem put_event_route_guarded_witness:
  "status (fst (put_event_route example_env None ''devcon6'' example_update (example_store, [])))
     \<in> {401, 403}
   \<and> snd (put_event_route example_env None ''devcon6'' example_update (example_store, []))
     = (example_store, [Authenticate None])
   \<and> status (fst (put_event_route example_env admin ''devcon6'' example_update
                   (example_store, []))) = 204
   \<and> status (fst (put_event_route example_env admin ''nowhere'' example_update
                   (example_store, []))) = 404"
proof -
  have known: "list_ex (\<lambda>ev. fancy_id ev = ''devcon6'') (events example_store)"
    and unknown: "\<not> list_ex (\<lambda>ev. fancy_id ev = ''nowhere'') (events example_store)"
    by (simp_all add: example_store_def active_event_def example_event_def)
  note t = put_event_route_guarded [where p = example_privileged and cr = example_crypto
      and wr = example_write and b = example_update
      and b' = "example_update\<lparr>signer_ip := Some []\<rparr>"
      and st = example_store and calls = "[]"]
  from t [where cred = None and fancyid = "''devcon6''", THEN conjunct2, THEN conjunct2,
      THEN conjunct1] admin_privileged(2)
  have 1: "status (fst (put_event_route example_env None ''devcon6'' example_update
              (example_store, []))) \<in> {401, 403}
    \<and> snd (put_event_route example_env None ''devcon6'' example_update (example_store, []))
       = (example_store, [Authenticate None])"
    by (simp add: example_env_def)
  from t [where cred = admin and fancyid = "''devcon6''", THEN conjunct2, THEN conjunct2,
      THEN conjunct2] admin_privileged(1) example_update_schema known
  have 2: "status (fst (put_event_route example_env admin ''devcon6'' example_update
                   (example_store, []))) = 204"
    by (simp add: example_env_def)
  from t [where cred = admin and fancyid = "''nowhere''", THEN conjunct2, THEN conjunct2,
      THEN conjunct2] admin_privileged(1) example_update_schema unknown
  have 3: "status (fst (put_event_route example_env admin ''nowhere'' example_update
                   (example_store, []))) = 404"
    by (simp add: example_env_def)
  from 1 2 3 show ?thesis by simp
qed

text \<open>
  C5, as the claim words it, has every string of the wrong length rejected with a
  validation error before any business logic runs. The empty string as the signer of a
  PUT body is not: the request is answered 204 and \<^verbatim>\<open>updateEvent\<close> is called, with no
  signer.
\<close>

theorem put_event_empty_signer_counterexample:
  "\<not> spec_Address []
   \<and> fst (put_event_route example_env admin ''devcon6'' (example_update\<lparr>signer := Some []\<rparr>)
           (example_store, []))
     = Reply 204 None
   \<and> snd (snd (put_event_route example_env admin ''devcon6''
                  (example_update\<lparr>signer := Some []\<rparr>) (example_store, [])))
     = [Authenticate admin,
        UpdateEvent ''devcon6''
          \<lparr>signer = None, signer_ip = Some [],
           event_url = ''https://devcon.org/6'', image_url = ''https://devcon.org/6.png''\<rparr>]"
proof -
  have known: "list_ex (\<lambda>ev. fancy_id ev = ''devcon6'') (events example_store)"
    by (simp add: example_store_def active_event_def example_event_def)
  have v: "put_event_body_schema (example_update\<lparr>signer := Some []\<rparr>)
      = Some (example_update\<lparr>signer := None, signer_ip := Some []\<rparr>)"
    by (simp add: put_event_body_schema_cases example_update_def spec_Address_def
        spec_hex_string_def)
  show ?thesis
    using known v admin_privileged(1)
    by (simp add: example_env_def put_event_route_spec spec_Address_def spec_hex_string_def)
       (simp add: example_update_def)
qed

section \<open>The metadata route\<close>

lemma metadata_route_found:
  assumes "getEvent env (parseInt env e) (fst s) = (Inr (Some ev), w1)"
  shows "metadata_route env e t s
     = (Reply 200 (Some (buildMetadataJson (''http://localhost:3000/metadata/'' @ e @ ''/'' @ t) ev)),
        (w1, snd s @ [GetEvent (parseInt env e)]))"
  using assms
  by (simp add: metadata_route_def route_nohooks_valid metadata_handler_def invoke_def)

lemma field_buildMetadataJson_other:
  "k \<noteq> ''external_url'' \<Longrightarrow> k \<noteq> ''home_url'' \<Longrightarrow>
     field k (buildMetadataJson u ev) = field k (buildMetadataJson u' ev)"
  by (simp add: buildMetadataJson_def)

text \<open>
  C9. \<^verbatim>\<open>GET /metadata/:eventId/:tokenId\<close> looks the event up and nothing else: whenever
  \<^verbatim>\<open>getEvent\<close> finds the event, the reply is 200 with the metadata document, for every
  token id whatsoever, and \<^verbatim>\<open>getEvent\<close> is the only call made (the token is never
  looked up). The token id enters the document only through the token URL, which starts
  with the fixed host \<^verbatim>\<open>http://localhost:3000\<close>: two requests for the same event have
  documents with the same keys and the same value under every key other than
  external_url and home_url, which hold each request's token URL.
\<close>

theorem metadata_route_any_token:
  assumes "getEvent env (parseInt env e) (fst s) = (Inr (Some ev), w1)"
    and "getEvent env (parseInt env e) (fst s') = (Inr (Some ev), w1')"
  shows "metadata_route env e t s
       = (Reply 200
            (Some (buildMetadataJson (''http://localhost:3000/metadata/'' @ e @ ''/'' @ t) ev)),
          (w1, snd s @ [GetEvent (parseInt env e)]))
    \<and> (\<forall>d d'. fst (metadata_route env e t s) = Reply 200 (Some d)
            \<and> fst (metadata_route env e t' s') = Reply 200 (Some d') \<longrightarrow>
          keys d = keys d'
          \<and> (\<forall>k. k \<noteq> ''external_url'' \<and> k \<noteq> ''home_url'' \<longrightarrow> field k d = field k d')
          \<and> field ''external_url'' d
              = Some (JString (''http://localhost:3000/metadata/'' @ e @ ''/'' @ t))
          \<and> field ''home_url'' d
              = Some (JString (''http://localhost:3000/metadata/'' @ e @ ''/'' @ t))
          \<and> field ''external_url'' d'
              = Some (JString (''http://localhost:3000/metadata/'' @ e @ ''/'' @ t'))
          \<and> field ''home_url'' d'
              = Some (JString (''http://localhost:3000/metadata/'' @ e @ ''/'' @ t')))"
proof (intro conjI allI impI)
  show "metadata_route env e t s
       = (Reply 200
            (Some (buildMetadataJson (''http://localhost:3000/metadata/'' @ e @ ''/'' @ t) ev)),
          (w1, snd s @ [GetEvent (parseInt env e)]))"
    by (rule metadata_route_found [OF assms(1)])
next
  fix d d'
  assume "fst (metadata_route env e t s) = Reply 200 (Some d)
            \<and> fst (metadata_route env e t' s') = Reply 200 (Some d')"
  then have d: "d = buildMetadataJson (''http://localhost:3000/metadata/'' @ e @ ''/'' @ t) ev"
    and d': "d' = buildMetadataJson (''http://localhost:3000/metadata/'' @ e @ ''/'' @ t') ev"
    by (simp_all add: metadata_route_found [OF assms(1)] metadata_route_found [OF assms(2)])
  show "keys d = keys d'"
    by (simp add: d d' buildMetadataJson_def)
  show "field ''external_url'' d
       = Some (JString (''http://localhost:3000/metadata/'' @ e @ ''/'' @ t))"
    and "field ''home_url'' d
       = Some (JString (''http://localhost:3000/metadata/'' @ e @ ''/'' @ t))"
    by (simp_all add: d buildMetadataJson_def)
  show "field ''external_url'' d'
       = Some (JString (''http://localhost:3000/metadata/'' @ e @ ''/'' @ t'))"
    and "field ''home_url'' d'
       = Some (JString (''http://localhost:3000/metadata/'' @ e @ ''/'' @ t'))"
    by (simp_all add: d' buildMetadataJson_def)
  fix k
  assume "k \<noteq> ''external_url'' \<and> k \<noteq> ''home_url''"
  then show "field k d = field k d'"
    unfolding d d' by (simp add: field_buildMetadataJson_other)
qed

lemma getEvent_example:
  "getEvent example_env (parseInt example_env ''1'') example_store
     = (Inr (Some active_event), example_store)"
proof -
  have "parseInt_digits ''1'' = Some 1"
    by (simp add: parseInt_digits_def is_digit_def digit_value_def)
  then show ?thesis
    by (simp add: example_env_def spec_env_def spec_getEvent_def find_event_1)
qed

theorem metadata_route_any_token_witness:
  "fst (metadata_route example_env ''1'' ''7'' (example_store, []))
     = Reply 200 (Some (buildMetadataJson ''http://localhost:3000/metadata/1/7'' active_event))
   \<and> fst (metadata_route example_env ''1'' ''no such token'' (example_store, []))
     = Reply 200
         (Some (buildMetadataJson ''http://localhost:3000/metadata/1/no such token'' active_event))
   \<and> snd (metadata_route example_env ''1'' ''no such token'' (example_store, []))
     = (example_store, [GetEvent (Some 1)])
   \<and> field ''name'' (buildMetadataJson ''http://localhost:3000/metadata/1/7'' active_event)
     = field ''name''
         (buildMetadataJson ''http://localhost:3000/metadata/1/no such token'' active_event)"
proof -
  let ?s = "(example_store, []) :: (store, int option) st"
  have g: "getEvent example_env (parseInt example_env ''1'') (fst ?s)
      = (Inr (Some active_event), example_store)"
    by (simp add: getEvent_example)
  have p: "parseInt example_env ''1'' = Some 1"
    by (simp add: example_env_def spec_env_def parseInt_digits_def is_digit_def digit_value_def)
  note a = metadata_route_any_token [OF g g, of "''7''" "''no such token''"]
  note b = metadata_route_any_token [OF g g, of "''no such token''" "''7''"]
  from a have r7: "metadata_route example_env ''1'' ''7'' ?s
     = (Reply 200 (Some (buildMetadataJson ''http://localhost:3000/metadata/1/7'' active_event)),
        (example_store, [GetEvent (Some 1)]))"
    by (simp add: p)
  from b have rn: "metadata_route example_env ''1'' ''no such token'' ?s
     = (Reply 200
         (Some (buildMetadataJson ''http://localhost:3000/metadata/1/no such token'' active_event)),
        (example_store, [GetEvent (Some 1)]))"
    by (simp add: p)
  have "field ''name'' (buildMetadataJson ''http://localhost:3000/metadata/1/7'' active_event)
     = field ''name''
         (buildMetadataJson ''http://localhost:3000/metadata/1/no such token'' active_event)"
    using a [THEN conjunct2, rule_format, of
        "buildMetadataJson ''http://localhost:3000/metadata/1/7'' active_event"
        "buildMetadataJson ''http://localhost:3000/metadata/1/no such token'' active_event",
        THEN conjunct2, THEN conjunct1, rule_format, of "''name''"] r7 rn
    by simp
  with r7 rn show ?thesis by simp
qed

end
